theory Spec2Isabelle
  imports Main "HOL-Library.Word"
begin

section \<open>The hp DoF index store of \<^verbatim>\<open>deal.II/hp/dof_levels.h\<close>\<close>

text \<open>
  The class template \<^verbatim>\<open>internal::hp::DoFLevel<dim>\<close> holds three vectors and five
  inline accessor templates. The accessors are embedded below as pure functions on a
  record of the three vectors; \<^verbatim>\<open>set_dof_index\<close>, the only mutator, returns the
  updated record.

  \<^item> \<^verbatim>\<open>unsigned int\<close> is a 32-bit word, \<^verbatim>\<open>std::vector<...>::size_type\<close> a 64-bit word;
    \<^verbatim>\<open>dof_offsets[obj_index]+local_index\<close> is an addition of \<^verbatim>\<open>size_type\<close> and wraps.
  \<^item> \<^verbatim>\<open>types::global_dof_index\<close> is declared in a header that is not part of the
    sources at hand. Values of that type are only stored and loaded by the accessors,
    so the payload element type is a type variable.
  \<^item> \<^verbatim>\<open>Assert (cond, exc)\<close> is modelled as in a debug build: the first failing
    condition ends the call with the exception object \<open>exc\<close> as the result \<open>Inl exc\<close>.
    The two assertions that a reference is not the null pointer always pass and are
    left out.
  \<^item> \<^verbatim>\<open>std::vector::operator[]\<close> past the end has no defined behaviour in C++. The model
    ends such a call with \<open>Inl VectorOutOfRange\<close>, so that no theorem can rely on a value
    read or written outside a vector.
\<close>

type_synonym uint = "32 word"
type_synonym size_type = "64 word"

datatype Exc =
    ExcMessage string
  | ExcIndexRange nat nat nat
  | ExcInternalError
  | VectorOutOfRange

text \<open>
  What the accessors consult of \<^verbatim>\<open>dealii::hp::DoFHandler<dimm,spacedim>\<close>, whose
  declaration is not among the sources: its dimension \<^verbatim>\<open>dimm\<close>, the static constant
  \<^verbatim>\<open>default_fe_index\<close>, the size of the collection \<^verbatim>\<open>get_fe().size()\<close>, and
  \<^verbatim>\<open>get_fe()[fe_index].template n_dofs_per_object<dim>()\<close> as a function of the
  element index and of \<^verbatim>\<open>dim\<close>. All four are parameters of the model.
\<close>

record DoFHandler =
  dimm :: nat
  default_fe_index :: uint
  fe_size :: uint
  n_dofs_per_object :: "uint \<Rightarrow> nat \<Rightarrow> uint"

record 'g DoFLevel =
  active_fe_indices :: "uint list"
  dof_offsets :: "size_type list"
  dofs :: "'g list"

text \<open>
  The exceptions of the source under the names the specification gives to the failure
  modes. These are abbreviations: each stands for the exception object the source
  constructs.
\<close>

abbreviation UnspecifiedVariant :: Exc where
  "UnspecifiedVariant \<equiv>
     ExcMessage ''You need to specify a FE index when working with hp DoFHandlers''"

abbreviation NoDoFsHere :: Exc where
  "NoDoFsHere \<equiv>
     ExcMessage ''You are trying to access degree of freedom information for an object on which no such information is available''"

abbreviation WrongVariant :: Exc where
  "WrongVariant \<equiv> ExcMessage ''FE index does not match that of the present cell''"

abbreviation VariantOutOfRange :: "DoFHandler \<Rightarrow> uint \<Rightarrow> Exc" where
  "VariantOutOfRange dof_handler fe_index \<equiv>
     ExcIndexRange (unat fe_index) 0 (unat (fe_size dof_handler))"


abbreviation IndexOutOfRange :: "uint \<Rightarrow> Exc" where
  "IndexOutOfRange n \<equiv> ExcIndexRange (unat n) 0 1"

subsection \<open>The accessors\<close>

text \<open>
  In every accessor the first argument \<open>dim\<close> is the template parameter of the class
  and \<open>invalid_dof_index\<close> is \<^verbatim>\<open>numbers::invalid_dof_index\<close>, converted to
  \<^verbatim>\<open>size_type\<close> by the comparison with an offset; its value is a parameter since
  its declaration is not among the sources.
\<close>

definition get_dof_index ::
  "nat \<Rightarrow> size_type \<Rightarrow> DoFHandler \<Rightarrow> 'g DoFLevel \<Rightarrow> uint \<Rightarrow> uint \<Rightarrow> uint \<Rightarrow> uint \<Rightarrow> Exc + 'g"
where
  "get_dof_index dim invalid_dof_index dof_handler this obj_index fe_index local_index obj_level =
    (if fe_index = default_fe_index dof_handler then
       Inl (ExcMessage ''You need to specify a FE index when working with hp DoFHandlers'')
     else if \<not> fe_index < fe_size dof_handler then
       Inl (ExcIndexRange (unat fe_index) 0 (unat (fe_size dof_handler)))
     else if \<not> local_index < n_dofs_per_object dof_handler fe_index dim then
       Inl (ExcIndexRange (unat local_index) 0
              (unat (n_dofs_per_object dof_handler fe_index dim)))
     else if \<not> unat obj_index < length (dof_offsets this) then
       Inl (ExcIndexRange (unat obj_index) 0 (length (dof_offsets this)))
     else if dof_offsets this ! unat obj_index = invalid_dof_index then
       Inl (ExcMessage ''You are trying to access degree of freedom information for an object on which no such information is available'')
     else if \<not> unat obj_index < length (active_fe_indices this) then
       Inl VectorOutOfRange
     else if fe_index \<noteq> active_fe_indices this ! unat obj_index then
       Inl (ExcMessage ''FE index does not match that of the present cell'')
     else if \<not> unat (dof_offsets this ! unat obj_index + ucast local_index)
                 < length (dofs this) then
       Inl VectorOutOfRange
     else
       Inr (dofs this ! unat (dof_offsets this ! unat obj_index + ucast local_index)))"

definition set_dof_index ::
  "nat \<Rightarrow> size_type \<Rightarrow> DoFHandler \<Rightarrow> 'g DoFLevel \<Rightarrow> uint \<Rightarrow> uint \<Rightarrow> uint \<Rightarrow> 'g \<Rightarrow> uint
     \<Rightarrow> Exc + 'g DoFLevel"
where
  "set_dof_index dim invalid_dof_index dof_handler this obj_index fe_index local_index
       global_index obj_level =
    (if fe_index = default_fe_index dof_handler then
       Inl (ExcMessage ''You need to specify a FE index when working with hp DoFHandlers'')
     else if \<not> fe_index < fe_size dof_handler then
       Inl (ExcIndexRange (unat fe_index) 0 (unat (fe_size dof_handler)))
     else if \<not> local_index < n_dofs_per_object dof_handler fe_index dim then
       Inl (ExcIndexRange (unat local_index) 0
              (unat (n_dofs_per_object dof_handler fe_index dim)))
     else if \<not> unat obj_index < length (dof_offsets this) then
       Inl (ExcIndexRange (unat obj_index) 0 (length (dof_offsets this)))
     else if dof_offsets this ! unat obj_index = invalid_dof_index then
       Inl (ExcMessage ''You are trying to access degree of freedom information for an object on which no such information is available'')
     else if \<not> unat obj_index < length (active_fe_indices this) then
       Inl VectorOutOfRange
     else if fe_index \<noteq> active_fe_indices this ! unat obj_index then
       Inl (ExcMessage ''FE index does not match that of the present cell'')
     else if \<not> unat (dof_offsets this ! unat obj_index + ucast local_index)
                 < length (dofs this) then
       Inl VectorOutOfRange
     else
       Inr (this\<lparr>dofs :=
              (dofs this)[unat (dof_offsets this ! unat obj_index + ucast local_index)
                            := global_index]\<rparr>))"

definition n_active_fe_indices ::
  "nat \<Rightarrow> size_type \<Rightarrow> DoFHandler \<Rightarrow> 'g DoFLevel \<Rightarrow> uint \<Rightarrow> Exc + uint"
where
  "n_active_fe_indices dim invalid_dof_index dof_handler this obj_index =
    (if \<not> dim \<le> dimm dof_handler then Inl ExcInternalError
     else if \<not> unat obj_index < length (dof_offsets this) then
       Inl (ExcIndexRange (unat obj_index) 0 (length (dof_offsets this)))
     else if dof_offsets this ! unat obj_index = invalid_dof_index then Inr 0
     else Inr 1)"

text \<open>
  \<^verbatim>\<open>nth_active_fe_index\<close> returns the \<^verbatim>\<open>unsigned int\<close> it reads from
  \<^verbatim>\<open>active_fe_indices\<close> as a \<^verbatim>\<open>types::global_dof_index\<close>; the model returns the
  element index that was read.
\<close>

definition nth_active_fe_index ::
  "nat \<Rightarrow> size_type \<Rightarrow> DoFHandler \<Rightarrow> 'g DoFLevel \<Rightarrow> uint \<Rightarrow> uint \<Rightarrow> uint \<Rightarrow> Exc + uint"
where
  "nth_active_fe_index dim invalid_dof_index dof_handler this obj_level obj_index n =
    (if \<not> dim \<le> dimm dof_handler then Inl ExcInternalError
     else if \<not> unat obj_index < length (dof_offsets this) then
       Inl (ExcIndexRange (unat obj_index) 0 (length (dof_offsets this)))
     else if dof_offsets this ! unat obj_index = invalid_dof_index then
       Inl (ExcMessage ''You are trying to access degree of freedom information for an object on which no such information is available'')
     else if n \<noteq> 0 then Inl (ExcIndexRange (unat n) 0 1)
     else if \<not> unat obj_index < length (active_fe_indices this) then
       Inl VectorOutOfRange
     else Inr (active_fe_indices this ! unat obj_index))"

text \<open>
  The upper bound reported by the first assertion of \<^verbatim>\<open>fe_index_is_active\<close> is
  \<^verbatim>\<open>static_cast<unsigned int>(dof_offsets.size())\<close>, the size cut to 32 bits.
\<close>

definition fe_index_is_active ::
  "nat \<Rightarrow> size_type \<Rightarrow> DoFHandler \<Rightarrow> 'g DoFLevel \<Rightarrow> uint \<Rightarrow> uint \<Rightarrow> uint \<Rightarrow> Exc + bool"
where
  "fe_index_is_active dim invalid_dof_index dof_handler this obj_index fe_index obj_level =
    (if \<not> unat obj_index < length (dof_offsets this) then
       Inl (ExcIndexRange (unat obj_index) 0 (length (dof_offsets this) mod 2 ^ 32))
     else if fe_index = default_fe_index dof_handler then
       Inl (ExcMessage ''You need to specify a FE index when working with hp DoFHandlers'')
     else if \<not> fe_index < fe_size dof_handler then
       Inl (ExcIndexRange (unat fe_index) 0 (unat (fe_size dof_handler)))
     else if dof_offsets this ! unat obj_index = invalid_dof_index then
       Inl (ExcMessage ''You are trying to access degree of freedom information for an object on which no such information is available'')
     else if \<not> unat obj_index < length (active_fe_indices this) then
       Inl ExcInternalError
     else Inr (fe_index = active_fe_indices this ! unat obj_index))"

subsection \<open>The layout of the payload\<close>

text \<open>
  Modelled from the spec: the code that sizes the three vectors is not among the
  sources, so what it establishes is taken from the data model of the specification.
  Invariant 2: the block of an object with offset \<open>p\<close> is \<open>dofs[p .. p + k)\<close>, where
  \<open>k\<close> is the number of DoFs that the element \<open>active_fe_indices[i]\<close> places on an
  object of dimension \<open>dim\<close>. \<open>slice_end\<close> is \<open>p + k\<close> as a natural number.
\<close>

definition slice_end :: "nat \<Rightarrow> DoFHandler \<Rightarrow> 'g DoFLevel \<Rightarrow> nat \<Rightarrow> nat" where
  "slice_end dim dof_handler this i =
     unat (dof_offsets this ! i)
       + unat (n_dofs_per_object dof_handler (active_fe_indices this ! i) dim)"

text \<open>
  Modelled from the spec: invariants 1 and 2 for one object. Its offset is not the
  sentinel, it has an entry in \<open>active_fe_indices\<close>, and its block lies inside the
  payload. The size of a vector is a \<^verbatim>\<open>size_type\<close>, hence below \<open>2 ^ 64\<close>.
\<close>

definition slice_allocated ::
  "nat \<Rightarrow> size_type \<Rightarrow> DoFHandler \<Rightarrow> 'g DoFLevel \<Rightarrow> uint \<Rightarrow> bool" where
  "slice_allocated dim invalid_dof_index dof_handler this obj_index \<longleftrightarrow>
     unat obj_index < length (dof_offsets this)
     \<and> dof_offsets this ! unat obj_index \<noteq> invalid_dof_index
     \<and> unat obj_index < length (active_fe_indices this)
     \<and> slice_end dim dof_handler this (unat obj_index) \<le> length (dofs this)
     \<and> length (dofs this) < 2 ^ 64"

text \<open>
  Modelled from the spec: invariants 2 and 5 for the whole store. Every allocated
  object has its block inside the payload, and the blocks follow each other in the
  order of the objects without overlap.
\<close>

definition slices_in_order :: "nat \<Rightarrow> size_type \<Rightarrow> DoFHandler \<Rightarrow> 'g DoFLevel \<Rightarrow> bool" where
  "slices_in_order dim invalid_dof_index dof_handler this \<longleftrightarrow>
     length (dofs this) < 2 ^ 64
     \<and> (\<forall>j \<in> set [0..<length (dof_offsets this)].
          dof_offsets this ! j \<noteq> invalid_dof_index \<longrightarrow>
            j < length (active_fe_indices this)
            \<and> slice_end dim dof_handler this j \<le> length (dofs this)
            \<and> (\<forall>i \<in> set [0..<j].
                  dof_offsets this ! i \<noteq> invalid_dof_index \<longrightarrow>
                    slice_end dim dof_handler this i \<le> unat (dof_offsets this ! j)))"

subsection \<open>The element collection and the cell level of scenario A\<close>

text \<open>
  The concrete store of the first end-to-end scenario of the specification: elements
  0, 1 and 2 place 2, 3 and 1 DoFs on a cell, the three cells use the elements 0, 1
  and 0. \<open>scenario_A\<close> is the store before numbering, with every slot at the
  unassigned value \<open>- 1\<close>; \<open>scenario_A_numbered\<close> is the store after the seven writes.
\<close>

definition scenario_handler :: DoFHandler where
  "scenario_handler =
     \<lparr>dimm = 2, default_fe_index = - 1, fe_size = 3,
      n_dofs_per_object =
        (\<lambda>fe_index d. if fe_index = 0 then 2 else if fe_index = 1 then 3
                        else if fe_index = 2 then 1 else 0)\<rparr>"


definition scenario_A_numbered :: "uint DoFLevel" where
  "scenario_A_numbered =
     \<lparr>active_fe_indices = [0, 1, 0], dof_offsets = [0, 2, 5],
      dofs = [100, 101, 200, 201, 202, 300, 301]\<rparr>"

subsection \<open>A level of objects below the dimension of the cells\<close>

text \<open>
  Modelled from the spec: the linked list that the specification (data model,
  invariant 3, and the sub-cell case of its section 4.1) places in the payload for an
  object of a dimension below that of the cells. No accessor of the source walks such
  a list, so the walk is written from the words of the specification: read the element
  index at the cursor; stop at the end marker; otherwise the element is on the object,
  and the cursor moves on by one plus the number of DoFs of that element. The result
  is the list of the element indices met, in the order stored. A cursor past the end
  of the payload stops the walk.
\<close>

function spec_variant_list :: "nat \<Rightarrow> DoFHandler \<Rightarrow> uint \<Rightarrow> uint list \<Rightarrow> nat \<Rightarrow> uint list" where
  "spec_variant_list dim dof_handler term_marker payload cursor =
     (if cursor < length payload \<and> payload ! cursor \<noteq> term_marker
      then payload ! cursor
             # spec_variant_list dim dof_handler term_marker payload
                 (cursor + 1 + unat (n_dofs_per_object dof_handler (payload ! cursor) dim))
      else [])"
  by pat_completeness auto
termination
  by (relation "measure (\<lambda>(dim, dof_handler, term_marker, payload, cursor).
        length payload - cursor)") auto

declare spec_variant_list.simps [simp del]

text \<open>
  The object of the boundary example of the specification: a line in two dimensions
  that carries the elements 3 and 7, with 2 and 1 DoFs per line. Its payload is
  \<open>3, 10, 11, 7, 20, end marker\<close>, so the DoF of element 7 at slot 0 is the entry 20
  at position \<open>3 + 1 + 0\<close>. The level is one below the cells, where
  \<open>active_fe_indices\<close> is not populated.
\<close>

definition subcell_handler :: DoFHandler where
  "subcell_handler =
     \<lparr>dimm = 2, default_fe_index = - 1, fe_size = 8,
      n_dofs_per_object = (\<lambda>fe_index d. if fe_index = 3 then 2 else 1)\<rparr>"

definition subcell_store :: "uint DoFLevel" where
  "subcell_store =
     \<lparr>active_fe_indices = [], dof_offsets = [0], dofs = [3, 10, 11, 7, 20, - 1]\<rparr>"

section \<open>Properties\<close>

subsection \<open>Addresses\<close>

lemma unat_ucast_uint: "unat (ucast (l::uint) :: size_type) = unat l"
proof -
  have "unat l < 2 ^ 32" using unsigned_less [of l, where 'a=nat] by simp
  then have "unat l < 2 ^ 64" by simp
  then show ?thesis by (simp add: unsigned_ucast_eq take_bit_nat_eq_self)
qed

lemma addr_nowrap:
  assumes "unat (off::size_type) + unat (l::uint) < 2 ^ 64"
  shows "unat (off + ucast l) = unat off + unat l"
  using assms by (simp add: unat_add_lem [THEN iffD1] unat_ucast_uint)

lemma addr_inj: "(off::size_type) + ucast (l::uint) = off + ucast l' \<longleftrightarrow> l = l'"
proof
  assume "off + ucast l = off + ucast l'"
  then have "(ucast l :: size_type) = ucast l'" by simp
  then have "unat (ucast l :: size_type) = unat (ucast l' :: size_type)" by simp
  then show "l = l'" by (simp add: unat_ucast_uint word_unat_eq_iff)
qed simp

text \<open>
  The address of a slot of an allocated block is the sum of offset and slot, without
  wrap-around, and lies in the payload.
\<close>

lemma slot_in_slice:
  assumes alloc: "slice_allocated dim invalid_dof_index dof_handler this obj_index"
    and slot: "local_index <
        n_dofs_per_object dof_handler (active_fe_indices this ! unat obj_index) dim"
  shows "unat (dof_offsets this ! unat obj_index + ucast local_index)
           = unat (dof_offsets this ! unat obj_index) + unat local_index"
    and "unat (dof_offsets this ! unat obj_index) + unat local_index < length (dofs this)"
proof -
  let ?off = "dof_offsets this ! unat obj_index"
  let ?k = "n_dofs_per_object dof_handler (active_fe_indices this ! unat obj_index) dim"
  from slot have "unat local_index < unat ?k" by (simp add: word_less_nat_alt)
  moreover from alloc have "unat ?off + unat ?k \<le> length (dofs this)"
    and len: "length (dofs this) < 2 ^ 64"
    by (simp_all add: slice_allocated_def slice_end_def)
  ultimately show in_range: "unat ?off + unat local_index < length (dofs this)" by simp
  with len have "unat ?off + unat local_index < 2 ^ 64" by simp
  then show "unat (?off + ucast local_index) = unat ?off + unat local_index"
    by (rule addr_nowrap)
qed


lemma get_dof_index_succeeds:
  assumes alloc: "slice_allocated dim invalid_dof_index dof_handler this obj_index"
    and valid: "fe_index \<noteq> default_fe_index dof_handler" "fe_index < fe_size dof_handler"
    and carried: "active_fe_indices this ! unat obj_index = fe_index"
    and slot: "local_index < n_dofs_per_object dof_handler fe_index dim"
  shows "get_dof_index dim invalid_dof_index dof_handler this obj_index fe_index local_index
           obj_level
         = Inr (dofs this ! (unat (dof_offsets this ! unat obj_index) + unat local_index))"
proof -
  from slot carried have slot':
    "local_index < n_dofs_per_object dof_handler (active_fe_indices this ! unat obj_index) dim"
    by simp
  note addr = slot_in_slice [OF alloc slot']
  from alloc have "unat obj_index < length (dof_offsets this)"
    "dof_offsets this ! unat obj_index \<noteq> invalid_dof_index"
    "unat obj_index < length (active_fe_indices this)"
    by (simp_all add: slice_allocated_def)
  with valid carried slot addr show ?thesis
    by (simp add: get_dof_index_def)
qed


lemma set_dof_index_InrD:
  assumes "set_dof_index dim invalid_dof_index dof_handler this obj_index fe_index local_index
             global_index obj_level = Inr this'"
  shows "fe_index \<noteq> default_fe_index dof_handler" "fe_index < fe_size dof_handler"
    "local_index < n_dofs_per_object dof_handler fe_index dim"
    "unat obj_index < length (dof_offsets this)"
    "dof_offsets this ! unat obj_index \<noteq> invalid_dof_index"
    "unat obj_index < length (active_fe_indices this)"
    "active_fe_indices this ! unat obj_index = fe_index"
    "unat (dof_offsets this ! unat obj_index + ucast local_index) < length (dofs this)"
    "this' = this\<lparr>dofs := (dofs this)
        [unat (dof_offsets this ! unat obj_index + ucast local_index) := global_index]\<rparr>"
  using assms by (simp_all add: set_dof_index_def split: if_splits)


lemma slices_in_orderD:
  assumes "slices_in_order dim invalid_dof_index dof_handler this"
    and "unat obj_index < length (dof_offsets this)"
    and "dof_offsets this ! unat obj_index \<noteq> invalid_dof_index"
  shows "slice_allocated dim invalid_dof_index dof_handler this obj_index"
  using assms by (simp add: slices_in_order_def slice_allocated_def)

lemma slices_in_order_below:
  assumes "slices_in_order dim invalid_dof_index dof_handler this"
    and "i < j" "j < length (dof_offsets this)"
    and "dof_offsets this ! i \<noteq> invalid_dof_index"
    and "dof_offsets this ! j \<noteq> invalid_dof_index"
  shows "slice_end dim dof_handler this i \<le> unat (dof_offsets this ! j)"
  using assms by (simp add: slices_in_order_def)

lemma slots_apart:
  fixes i j l l' :: uint
  assumes layout: "slices_in_order dim invalid_dof_index dof_handler this"
    and i: "unat i < length (dof_offsets this)" "dof_offsets this ! unat i \<noteq> invalid_dof_index"
    and j: "unat j < length (dof_offsets this)" "dof_offsets this ! unat j \<noteq> invalid_dof_index"
    and l: "l < n_dofs_per_object dof_handler (active_fe_indices this ! unat i) dim"
    and l': "l' < n_dofs_per_object dof_handler (active_fe_indices this ! unat j) dim"
    and less: "unat i < unat j"
  shows "unat (dof_offsets this ! unat i + ucast l) < unat (dof_offsets this ! unat j + ucast l')"
proof -
  note ai = slot_in_slice [OF slices_in_orderD [OF layout i] l]
  note aj = slot_in_slice [OF slices_in_orderD [OF layout j] l']
  from l have "unat l < unat (n_dofs_per_object dof_handler (active_fe_indices this ! unat i) dim)"
    by (simp add: word_less_nat_alt)
  then have "unat (dof_offsets this ! unat i) + unat l < slice_end dim dof_handler this (unat i)"
    by (simp add: slice_end_def)
  also have "\<dots> \<le> unat (dof_offsets this ! unat j)"
    by (rule slices_in_order_below [OF layout less j(1) i(2) j(2)])
  finally show ?thesis using ai(1) aj(1) by simp
qed

subsection \<open>Reading and writing\<close>



text \<open>
  C2. For an object with an allocated block, a valid element index and a slot below
  the DoF count of that element, \<open>get_dof_index\<close> returns
  \<open>dofs[dof_offsets[obj_index] + local_index]\<close> if \<open>fe_index\<close> is
  \<open>active_fe_indices[obj_index]\<close>, and fails with \<open>WrongVariant\<close> otherwise. The body
  does not depend on \<open>dim\<close> being the dimension of the cells, so the statement holds
  for every \<open>dim\<close>, that of the cells included.
\<close>

theorem cell_get_dof_index:
  assumes alloc: "slice_allocated dim invalid_dof_index dof_handler this obj_index"
    and valid: "fe_index \<noteq> default_fe_index dof_handler" "fe_index < fe_size dof_handler"
    and slot: "local_index < n_dofs_per_object dof_handler fe_index dim"
  shows "get_dof_index dim invalid_dof_index dof_handler this obj_index fe_index local_index
           obj_level
         = (if fe_index = active_fe_indices this ! unat obj_index
            then Inr (dofs this ! (unat (dof_offsets this ! unat obj_index) + unat local_index))
            else Inl WrongVariant)"
proof (cases "fe_index = active_fe_indices this ! unat obj_index")
  case True
  then have "active_fe_indices this ! unat obj_index = fe_index" by simp
  from get_dof_index_succeeds [OF alloc valid this slot] True show ?thesis by simp
next
  case False
  from alloc have "unat obj_index < length (dof_offsets this)"
    "dof_offsets this ! unat obj_index \<noteq> invalid_dof_index"
    "unat obj_index < length (active_fe_indices this)"
    by (simp_all add: slice_allocated_def)
  with valid slot False show ?thesis by (simp add: get_dof_index_def)
qed

theorem cell_get_dof_index_witness:
  "slice_allocated 2 (- 1) scenario_handler scenario_A_numbered 1
   \<and> get_dof_index 2 (- 1) scenario_handler scenario_A_numbered 1 1 2 0 = Inr 202
   \<and> get_dof_index 2 (- 1) scenario_handler scenario_A_numbered 1 0 1 0 = Inl WrongVariant"
proof -
  have a: "slice_allocated 2 (- 1) scenario_handler scenario_A_numbered 1"
    by (simp add: slice_allocated_def slice_end_def scenario_handler_def
        scenario_A_numbered_def)
  have v1: "(1::uint) \<noteq> default_fe_index scenario_handler" "1 < fe_size scenario_handler"
    and s1: "(2::uint) < n_dofs_per_object scenario_handler 1 2"
    and v0: "(0::uint) \<noteq> default_fe_index scenario_handler" "0 < fe_size scenario_handler"
    and s0: "(1::uint) < n_dofs_per_object scenario_handler 0 2"
    by (simp_all add: scenario_handler_def)
  from cell_get_dof_index [OF a v1 s1, of 0] cell_get_dof_index [OF a v0 s0, of 0] a
  show ?thesis by (simp add: scenario_A_numbered_def)
qed



text \<open>
  C9. Frame. A successful \<open>set_dof_index\<close> leaves \<open>dof_offsets\<close> and
  \<open>active_fe_indices\<close> as they are and changes the payload in the one slot
  \<open>dof_offsets[obj_index] + local_index\<close>. If the blocks of the store are laid out in
  the order of the objects without overlap, then for every other triple of object,
  element and slot \<open>get_dof_index\<close> gives the same result after the write as before
  it. (A failing \<open>set_dof_index\<close> returns no store at all.)
\<close>

theorem set_dof_index_frame:
  assumes layout: "slices_in_order dim invalid_dof_index dof_handler this"
    and written: "set_dof_index dim invalid_dof_index dof_handler this obj_index fe_index
                    local_index global_index obj_level = Inr this'"
  shows "dof_offsets this' = dof_offsets this
     \<and> active_fe_indices this' = active_fe_indices this
     \<and> dofs this' = (dofs this)
           [unat (dof_offsets this ! unat obj_index) + unat local_index := global_index]
     \<and> (\<forall>obj_index' fe_index' local_index' obj_level'.
          (obj_index', fe_index', local_index') \<noteq> (obj_index, fe_index, local_index) \<longrightarrow>
          get_dof_index dim invalid_dof_index dof_handler this' obj_index' fe_index'
              local_index' obj_level'
          = get_dof_index dim invalid_dof_index dof_handler this obj_index' fe_index'
              local_index' obj_level')"
proof -
  note w = set_dof_index_InrD [OF written]
  let ?a = "unat (dof_offsets this ! unat obj_index + ucast local_index)"
  from w(3,7) have slot:
    "local_index < n_dofs_per_object dof_handler (active_fe_indices this ! unat obj_index) dim"
    by simp
  have a_eq: "?a = unat (dof_offsets this ! unat obj_index) + unat local_index"
    by (rule slot_in_slice(1) [OF slices_in_orderD [OF layout w(4,5)] slot])
  have other: "get_dof_index dim invalid_dof_index dof_handler this' i' v' l' lvl'
      = get_dof_index dim invalid_dof_index dof_handler this i' v' l' lvl'"
    if distinct: "(i', v', l') \<noteq> (obj_index, fe_index, local_index)" for i' v' l' lvl'
  proof (cases "v' \<noteq> default_fe_index dof_handler \<and> v' < fe_size dof_handler
      \<and> l' < n_dofs_per_object dof_handler v' dim \<and> unat i' < length (dof_offsets this)
      \<and> dof_offsets this ! unat i' \<noteq> invalid_dof_index
      \<and> unat i' < length (active_fe_indices this) \<and> active_fe_indices this ! unat i' = v'")
    case False
    then show ?thesis by (auto simp add: get_dof_index_def w(9))
  next
    case True
    then have slot': "l' < n_dofs_per_object dof_handler (active_fe_indices this ! unat i') dim"
      and i': "unat i' < length (dof_offsets this)"
        "dof_offsets this ! unat i' \<noteq> invalid_dof_index"
      and v': "active_fe_indices this ! unat i' = v'"
      by simp_all
    let ?a' = "unat (dof_offsets this ! unat i' + ucast l')"
    have "?a' \<noteq> ?a"
    proof (cases "unat i' = unat obj_index")
      case True
      then have same: "i' = obj_index" by (simp add: word_unat_eq_iff)
      with v' w(7) have "v' = fe_index" by simp
      with same distinct have "l' \<noteq> local_index" by simp
      then have "dof_offsets this ! unat obj_index + ucast l'
          \<noteq> dof_offsets this ! unat obj_index + ucast local_index"
        by (simp only: addr_inj not_False_eq_True)
      then have "unat (dof_offsets this ! unat obj_index + ucast l')
          \<noteq> unat (dof_offsets this ! unat obj_index + ucast local_index)"
        by (simp only: word_unat_eq_iff not_False_eq_True)
      with same show ?thesis by simp
    next
      case False
      then consider "unat i' < unat obj_index" | "unat obj_index < unat i'" by linarith
      then show ?thesis
      proof cases
        case 1
        from slots_apart [OF layout i' w(4,5) slot' slot 1] show ?thesis by simp
      next
        case 2
        from slots_apart [OF layout w(4,5) i' slot slot' 2] show ?thesis by simp
      qed
    qed
    then have "(dofs this)[?a := global_index] ! ?a' = dofs this ! ?a'" by simp
    then show ?thesis by (simp add: get_dof_index_def w(9))
  qed
  from w(9) a_eq other show ?thesis by simp
qed

theorem set_dof_index_frame_witness:
  "slices_in_order 2 (- 1) scenario_handler scenario_A_numbered
   \<and> set_dof_index 2 (- 1) scenario_handler scenario_A_numbered 1 1 2 7 0
       = Inr (scenario_A_numbered\<lparr>dofs := [100, 101, 200, 201, 7, 300, 301]\<rparr>)
   \<and> get_dof_index 2 (- 1) scenario_handler
         (scenario_A_numbered\<lparr>dofs := [100, 101, 200, 201, 7, 300, 301]\<rparr>) 2 0 0 0
       = Inr 300
   \<and> get_dof_index 2 (- 1) scenario_handler scenario_A_numbered 2 0 0 0 = Inr 300"
proof -
  let ?this' = "scenario_A_numbered\<lparr>dofs := [100, 101, 200, 201, 7, 300, 301]\<rparr>"
  have layout: "slices_in_order 2 (- 1) scenario_handler scenario_A_numbered"
    by (simp add: slices_in_order_def slice_end_def scenario_handler_def
        scenario_A_numbered_def atLeastLessThanSuc)
  have written: "set_dof_index 2 (- 1) scenario_handler scenario_A_numbered 1 1 2 7 0
      = Inr ?this'"
    by (simp add: set_dof_index_def scenario_handler_def scenario_A_numbered_def)
  have before: "get_dof_index 2 (- 1) scenario_handler scenario_A_numbered 2 0 0 0 = Inr 300"
    by (simp add: get_dof_index_def scenario_handler_def scenario_A_numbered_def)
  from set_dof_index_frame [OF layout written]
  have "\<forall>obj_index' fe_index' local_index' obj_level'.
      (obj_index', fe_index', local_index') \<noteq> (1, 1, 2) \<longrightarrow>
      get_dof_index 2 (- 1) scenario_handler ?this' obj_index' fe_index' local_index' obj_level'
      = get_dof_index 2 (- 1) scenario_handler scenario_A_numbered obj_index' fe_index'
          local_index' obj_level'"
    by (rule conjunct2 [THEN conjunct2, THEN conjunct2])
  from this [rule_format, of 2 0 0 0]
  have "get_dof_index 2 (- 1) scenario_handler ?this' 2 0 0 0
      = get_dof_index 2 (- 1) scenario_handler scenario_A_numbered 2 0 0 0"
    by simp
  with layout written before show ?thesis by simp
qed

subsection \<open>Objects below the dimension of the cells\<close>

text \<open>
  The comment of the class describes, for objects of a dimension below that of the
  cells, a linked list in the payload, and says of \<^verbatim>\<open>set_dof_index\<close> and
  \<^verbatim>\<open>get_dof_index\<close> that they traverse it; the comment of
  \<^verbatim>\<open>n_active_fe_indices\<close> promises one or two for a face and more for an edge in
  3d. The bodies of the five accessors hold no loop and never read an element index
  from the payload: the one element of an object is \<open>active_fe_indices[obj_index]\<close>.
  The theorems of this subsection evaluate the accessors on the line that carries the
  elements 3 and 7. Where an accessor reads \<open>active_fe_indices\<close>, the result is also
  given for every content \<open>a\<close> that vector could have, so that it does not rest on what
  a read past the end of the empty vector yields.
\<close>

lemma subcell_list:
  "spec_variant_list 1 subcell_handler (- 1) [3, 10, 11, 7, 20, - 1] 0 = [3, 7]"
  by (simp add: spec_variant_list.simps subcell_handler_def)

lemma subcell_store_list:
  "spec_variant_list 1 subcell_handler (- 1) (dofs subcell_store)
     (unat (dof_offsets subcell_store ! 0)) = [3, 7]"
  using subcell_list by (simp add: subcell_store_def)


text \<open>
  C3 does not hold of the code. The claim: on an object of a level below the cells,
  \<open>get_dof_index\<close> and \<open>set_dof_index\<close> find the element by a scan of the list from
  \<open>dof_offsets[obj_index]\<close>, fail with \<open>VariantNotOnObject\<close> at the end marker, and
  read or assign the DoF at cursor + 1 + slot; on the object carrying 3 and 7, reading
  5 fails so and reading 7 succeeds. The code, on that object: reading and writing
  element 7 end at the read of \<open>active_fe_indices[0]\<close>, which the level does not have;
  whatever \<open>active_fe_indices\<close> holds, reading element 7 at slot 0 never returns the
  DoF 20 and writing it never assigns position 4; and reading element 5 gives a read
  past the end, \<open>WrongVariant\<close>, or the payload entry 3 at the offset itself.
\<close>

theorem subcell_scan_failing_input:
  "1 < dimm subcell_handler
   \<and> spec_variant_list 1 subcell_handler (- 1) (dofs subcell_store)
         (unat (dof_offsets subcell_store ! 0)) = [3, 7]
   \<and> dofs subcell_store ! (3 + 1 + 0) = 20
   \<and> get_dof_index 1 (- 1) subcell_handler subcell_store 0 7 0 0 = Inl VectorOutOfRange
   \<and> set_dof_index 1 (- 1) subcell_handler subcell_store 0 7 0 21 0 = Inl VectorOutOfRange
   \<and> (\<forall>a. get_dof_index 1 (- 1) subcell_handler
              (subcell_store\<lparr>active_fe_indices := a\<rparr>) 0 7 0 0 \<noteq> Inr 20)
   \<and> (\<forall>a. set_dof_index 1 (- 1) subcell_handler
              (subcell_store\<lparr>active_fe_indices := a\<rparr>) 0 7 0 21 0
            \<noteq> Inr (subcell_store\<lparr>active_fe_indices := a, dofs := [3, 10, 11, 7, 21, - 1]\<rparr>))
   \<and> (\<forall>a. get_dof_index 1 (- 1) subcell_handler
              (subcell_store\<lparr>active_fe_indices := a\<rparr>) 0 5 0 0
            \<in> {Inl VectorOutOfRange, Inl WrongVariant, Inr 3})"
proof (intro conjI allI)
  show "spec_variant_list 1 subcell_handler (- 1) (dofs subcell_store)
       (unat (dof_offsets subcell_store ! 0)) = [3, 7]"
    by (rule subcell_store_list)
qed (simp_all add: get_dof_index_def set_dof_index_def subcell_handler_def subcell_store_def)

text \<open>
  C4 does not hold of the code. The claim: for an allocated object of a level below
  the cells \<open>n_active_fe_indices\<close> returns the number of entries of its list. The
  code, on the line whose list has the two entries 3 and 7, returns 1.
\<close>

theorem subcell_count_failing_input:
  "1 < dimm subcell_handler
   \<and> length (spec_variant_list 1 subcell_handler (- 1) (dofs subcell_store)
         (unat (dof_offsets subcell_store ! 0))) = 2
   \<and> n_active_fe_indices 1 (- 1) subcell_handler subcell_store 0 = Inr 1"
proof (intro conjI)
  show "length (spec_variant_list 1 subcell_handler (- 1) (dofs subcell_store)
         (unat (dof_offsets subcell_store ! 0))) = 2"
    by (simp only: subcell_store_list) simp
qed (simp_all add: n_active_fe_indices_def subcell_handler_def subcell_store_def)

text \<open>
  C5 does not hold of the code. The claim: for an allocated object of a level below
  the cells \<open>fe_index_is_active\<close> returns true exactly for the element indices of its
  list. The code, on the line that carries 3 and 7, fails with \<open>ExcInternalError\<close> for
  both, since the object has no entry in \<open>active_fe_indices\<close>; and whatever that
  vector holds, the code does not return true for both 3 and 7.
\<close>

theorem subcell_is_active_failing_input:
  "1 < dimm subcell_handler
   \<and> spec_variant_list 1 subcell_handler (- 1) (dofs subcell_store)
         (unat (dof_offsets subcell_store ! 0)) = [3, 7]
   \<and> fe_index_is_active 1 (- 1) subcell_handler subcell_store 0 3 0 = Inl ExcInternalError
   \<and> fe_index_is_active 1 (- 1) subcell_handler subcell_store 0 7 0 = Inl ExcInternalError
   \<and> (\<forall>a. \<not> (fe_index_is_active 1 (- 1) subcell_handler
                   (subcell_store\<lparr>active_fe_indices := a\<rparr>) 0 3 0 = Inr True
                \<and> fe_index_is_active 1 (- 1) subcell_handler
                   (subcell_store\<lparr>active_fe_indices := a\<rparr>) 0 7 0 = Inr True))"
proof (intro conjI allI)
  show "spec_variant_list 1 subcell_handler (- 1) (dofs subcell_store)
       (unat (dof_offsets subcell_store ! 0)) = [3, 7]"
    by (rule subcell_store_list)
qed (auto simp add: fe_index_is_active_def subcell_handler_def subcell_store_def
       split: if_splits)

text \<open>
  C6 does not hold of the code. The claim: \<open>nth_active_fe_index\<close> returns the
  \<open>n\<close>-th element index carried by the object, in the order stored. The code, on the
  line that carries 3 and then 7, fails with \<open>IndexOutOfRange\<close> for \<open>n = 1\<close>, whatever
  \<open>active_fe_indices\<close> holds: the assertion \<open>n == 0\<close> comes before any read of it.
\<close>

theorem subcell_nth_failing_input:
  "1 < dimm subcell_handler
   \<and> spec_variant_list 1 subcell_handler (- 1) (dofs subcell_store)
         (unat (dof_offsets subcell_store ! 0)) = [3, 7]
   \<and> nth_active_fe_index 1 (- 1) subcell_handler subcell_store 0 0 1 = Inl (IndexOutOfRange 1)
   \<and> (\<forall>a. nth_active_fe_index 1 (- 1) subcell_handler
              (subcell_store\<lparr>active_fe_indices := a\<rparr>) 0 0 1 = Inl (IndexOutOfRange 1))"
proof (intro conjI allI)
  show "spec_variant_list 1 subcell_handler (- 1) (dofs subcell_store)
       (unat (dof_offsets subcell_store ! 0)) = [3, 7]"
    by (rule subcell_store_list)
qed (simp_all add: nth_active_fe_index_def subcell_handler_def subcell_store_def)

subsection \<open>Arguments that are rejected or ignored\<close>

text \<open>
  C7. Whatever the object, the local slot, the value to store and the contents of the
  store, \<open>get_dof_index\<close> and \<open>set_dof_index\<close> called with the element index
  \<open>default_fe_index\<close> (the unspecified variant) fail with \<open>UnspecifiedVariant\<close>: the
  test comes first in both.
\<close>

theorem unspecified_variant_rejected:
  "get_dof_index dim invalid_dof_index dof_handler this obj_index
       (default_fe_index dof_handler) local_index obj_level = Inl UnspecifiedVariant
   \<and> set_dof_index dim invalid_dof_index dof_handler this obj_index
       (default_fe_index dof_handler) local_index global_index obj_level
     = Inl UnspecifiedVariant"
  by (simp add: get_dof_index_def set_dof_index_def)

text \<open>
  C10. The argument \<open>obj_level\<close> of \<open>get_dof_index\<close>, \<open>set_dof_index\<close>,
  \<open>nth_active_fe_index\<close> and \<open>fe_index_is_active\<close> is never read: with all other
  arguments equal, two calls that differ in \<open>obj_level\<close> only give the same result,
  which for \<open>set_dof_index\<close> is the same failure or the same new store.
\<close>

theorem obj_level_irrelevant:
  "get_dof_index dim invalid_dof_index dof_handler this obj_index fe_index local_index level1
     = get_dof_index dim invalid_dof_index dof_handler this obj_index fe_index local_index level2
   \<and> set_dof_index dim invalid_dof_index dof_handler this obj_index fe_index local_index
         global_index level1
     = set_dof_index dim invalid_dof_index dof_handler this obj_index fe_index local_index
         global_index level2
   \<and> nth_active_fe_index dim invalid_dof_index dof_handler this level1 obj_index n
     = nth_active_fe_index dim invalid_dof_index dof_handler this level2 obj_index n
   \<and> fe_index_is_active dim invalid_dof_index dof_handler this obj_index fe_index level1
     = fe_index_is_active dim invalid_dof_index dof_handler this obj_index fe_index level2"
  by (simp add: get_dof_index_def set_dof_index_def nth_active_fe_index_def
      fe_index_is_active_def)

end
